theory Spec2Isabelle
  imports Main "HOL-Library.Sublist"
begin

section \<open>Python values, truthiness and exceptions\<close>

text \<open>
  The scripts exchange XML-RPC data with the server: None, booleans, integers, strings,
  lists and dictionaries with string keys. A dictionary is an association list in
  insertion order whose keys are distinct, as Python's are; a lookup takes the entry
  of the key.
\<close>

datatype pyval =
    PNone
  | PBool bool
  | PInt int
  | PStr string
  | PList "pyval list"
  | PDict "(string \<times> pyval) list"

text \<open>Python's truth value of an object, as \<^verbatim>\<open>if x:\<close> tests it.\<close>

fun truthy :: "pyval \<Rightarrow> bool" where
  "truthy PNone = False"
| "truthy (PBool b) = b"
| "truthy (PInt i) = (i \<noteq> 0)"
| "truthy (PStr s) = (s \<noteq> [])"
| "truthy (PList xs) = (xs \<noteq> [])"
| "truthy (PDict kvs) = (kvs \<noteq> [])"

text \<open>
  An exception is its class name and the text \<^verbatim>\<open>str(e)\<close> gives. Every exception of
  the model is an instance of \<^verbatim>\<open>Exception\<close>, so \<^verbatim>\<open>except Exception\<close> catches it.
\<close>

datatype exc = PyExc (exc_class: string) (str_exc: string)

fun type_name :: "pyval \<Rightarrow> string" where
  "type_name PNone = ''NoneType''"
| "type_name (PBool b) = ''bool''"
| "type_name (PInt i) = ''int''"
| "type_name (PStr s) = ''str''"
| "type_name (PList xs) = ''list''"
| "type_name (PDict kvs) = ''dict''"

definition quoted :: "string \<Rightarrow> string" where
  "quoted k = [CHR 0x27] @ k @ [CHR 0x27]"

definition key_error :: "string \<Rightarrow> exc" where
  "key_error k = PyExc ''KeyError'' (quoted k)"

definition not_subscriptable :: "pyval \<Rightarrow> exc" where
  "not_subscriptable v = PyExc ''TypeError'' (quoted (type_name v) @ '' object is not subscriptable'')"

definition no_len :: "pyval \<Rightarrow> exc" where
  "no_len v = PyExc ''TypeError'' (''object of type '' @ quoted (type_name v) @ '' has no len()'')"

text \<open>
  \<^verbatim>\<open>x[0]\<close>: the first element of a list or the first character of a string,
  IndexError when there is none, KeyError on a dictionary (its keys are strings),
  TypeError on a value that cannot be subscripted.
\<close>

fun getitem0 :: "pyval \<Rightarrow> exc + pyval" where
  "getitem0 (PList []) = Inl (PyExc ''IndexError'' ''list index out of range'')"
| "getitem0 (PList (x # xs)) = Inr x"
| "getitem0 (PStr []) = Inl (PyExc ''IndexError'' ''string index out of range'')"
| "getitem0 (PStr (c # cs)) = Inr (PStr [c])"
| "getitem0 (PDict kvs) = Inl (PyExc ''KeyError'' ''0'')"
| "getitem0 v = Inl (not_subscriptable v)"

text \<open>\<^verbatim>\<open>x['k']\<close> with a string key.\<close>

fun getkey :: "pyval \<Rightarrow> string \<Rightarrow> exc + pyval" where
  "getkey (PDict kvs) k = (case map_of kvs k of None \<Rightarrow> Inl (key_error k) | Some v \<Rightarrow> Inr v)"
| "getkey (PList xs) k = Inl (PyExc ''TypeError'' ''list indices must be integers or slices, not str'')"
| "getkey (PStr s) k =
     Inl (PyExc ''TypeError'' (''string indices must be integers, not '' @ quoted ''str''))"
| "getkey v k = Inl (not_subscriptable v)"

text \<open>\<^verbatim>\<open>len(x)\<close>.\<close>

fun py_len :: "pyval \<Rightarrow> exc + nat" where
  "py_len (PList xs) = Inr (length xs)"
| "py_len (PStr s) = Inr (length s)"
| "py_len (PDict kvs) = Inr (length kvs)"
| "py_len v = Inl (no_len v)"

text \<open>\<^verbatim>\<open>needle in text\<close> on strings: \<open>needle\<close> occurs as a contiguous block.\<close>

fun starts_with :: "string \<Rightarrow> string \<Rightarrow> bool" where
  "starts_with [] s = True"
| "starts_with (c # cs) [] = False"
| "starts_with (c # cs) (d # ds) = (c = d \<and> starts_with cs ds)"

fun contains :: "string \<Rightarrow> string \<Rightarrow> bool" where
  "contains needle [] = (needle = [])"
| "contains needle (d # ds) = (starts_with needle (d # ds) \<or> contains needle ds)"

section \<open>The client object and the remote endpoints\<close>

text \<open>
  One call on an endpoint proxy: the endpoint's address, the remote procedure
  (\<^verbatim>\<open>authenticate\<close> on \<^verbatim>\<open>/xmlrpc/2/common\<close>, \<^verbatim>\<open>execute_kw\<close> on \<^verbatim>\<open>/xmlrpc/2/object\<close>)
  and the positional parameters in the order the call passes them.
\<close>

record request =
  endpoint :: string
  rpc_method :: string
  params :: "pyval list"

text \<open>
  The fields of a client object (\<^verbatim>\<open>self.config\<close>, \<^verbatim>\<open>self.uid\<close>, \<^verbatim>\<open>self.url\<close>)
  and, beside them, the calls made so far on the endpoint proxies, oldest first.
\<close>

record state =
  config :: "string \<rightharpoonup> pyval"
  uid :: pyval
  url :: string
  sent :: "request list"

text \<open>
  The remote side: what a proxy call answers, a value or a raised exception, given
  the earlier calls and the call itself. The server is outside the repository, so it
  is a parameter of every operation.
\<close>

type_synonym remote = "request list \<Rightarrow> request \<Rightarrow> exc + pyval"

text \<open>
  \<^verbatim>\<open>__init__\<close>: the handle starts as None. The address is the formatted string
  \<^verbatim>\<open>f"{protocol}://{host}:{port}"\<close>, taken as given.
\<close>

definition init :: "(string \<rightharpoonup> pyval) \<Rightarrow> string \<Rightarrow> state" where
  "init cfg address = \<lparr>config = cfg, uid = PNone, url = address, sent = []\<rparr>"

definition client_fields :: "state \<Rightarrow> (string \<rightharpoonup> pyval) \<times> pyval \<times> string" where
  "client_fields s = (config s, uid s, url s)"

text \<open>\<^verbatim>\<open>self.config[k]\<close>: KeyError when the key is missing.\<close>

definition cfg_get :: "state \<Rightarrow> string \<Rightarrow> exc + pyval" where
  "cfg_get s k = (case config s k of None \<Rightarrow> Inl (key_error k) | Some v \<Rightarrow> Inr v)"

text \<open>A proxy call: the call is recorded and the remote side answers it.\<close>

definition rpc :: "remote \<Rightarrow> request \<Rightarrow> state \<Rightarrow> (exc + pyval) \<times> state" where
  "rpc rem q s = (rem (sent s) q, s\<lparr>sent := sent s @ [q]\<rparr>)"

definition auth_request :: "state \<Rightarrow> pyval \<Rightarrow> pyval \<Rightarrow> pyval \<Rightarrow> request" where
  "auth_request s db user secret =
     \<lparr>endpoint = url s @ ''/xmlrpc/2/common'', rpc_method = ''authenticate'',
      params = [db, user, secret, PDict []]\<rparr>"

definition exec_request ::
  "state \<Rightarrow> pyval \<Rightarrow> pyval \<Rightarrow> string \<Rightarrow> string \<Rightarrow> pyval list \<Rightarrow> (string \<times> pyval) list \<Rightarrow> request" where
  "exec_request s db secret model method args kwargs =
     \<lparr>endpoint = url s @ ''/xmlrpc/2/object'', rpc_method = ''execute_kw'',
      params = [db, uid s, secret, PStr model, PStr method, PList args, PDict kwargs]\<rparr>"

section \<open>OdooCallInitiator: authenticate and call_model\<close>

text \<open>
  \<^verbatim>\<open>OdooCallInitiator.authenticate\<close> (the same text in QuickWebRTCFix and
  EnhancedOdooCallInitiator). The three configuration reads and the proxy call are
  inside the \<^verbatim>\<open>try\<close>; the assignment to \<^verbatim>\<open>self.uid\<close> happens when the proxy call
  returns, before the value is tested.
\<close>

definition authenticate :: "remote \<Rightarrow> state \<Rightarrow> (exc + bool) \<times> state" where
  "authenticate rem s =
     (case cfg_get s ''database'' of Inl e \<Rightarrow> (Inr False, s) | Inr db \<Rightarrow>
     (case cfg_get s ''username'' of Inl e \<Rightarrow> (Inr False, s) | Inr user \<Rightarrow>
     (case cfg_get s ''api_key'' of Inl e \<Rightarrow> (Inr False, s) | Inr secret \<Rightarrow>
     (case rpc rem (auth_request s db user secret) s of
        (Inl e, s1) \<Rightarrow> (Inr False, s1)
      | (Inr v, s1) \<Rightarrow>
          (let s2 = s1\<lparr>uid := v\<rparr>
           in if truthy (uid s2) then (Inr True, s2) else (Inr False, s2))))))"

text \<open>
  \<^verbatim>\<open>OdooCallInitiator.call_model\<close> (the same text in QuickWebRTCFix): no \<^verbatim>\<open>try\<close>,
  the arguments of \<^verbatim>\<open>execute_kw\<close> are evaluated left to right and the answer of the
  proxy is returned.
\<close>

definition call_model ::
  "remote \<Rightarrow> string \<Rightarrow> string \<Rightarrow> pyval list \<Rightarrow> (string \<times> pyval) list \<Rightarrow> state
     \<Rightarrow> (exc + pyval) \<times> state" where
  "call_model rem model method args kwargs s =
     (case cfg_get s ''database'' of Inl e \<Rightarrow> (Inl e, s) | Inr db \<Rightarrow>
     (case cfg_get s ''api_key'' of Inl e \<Rightarrow> (Inl e, s) | Inr secret \<Rightarrow>
        rpc rem (exec_request s db secret model method args kwargs) s))"

text \<open>
  \<^verbatim>\<open>EnhancedOdooCallInitiator.call_model\<close>: the same call inside a \<^verbatim>\<open>try\<close> whose
  handler prints the exception and raises it again.
\<close>

definition enhanced_call_model ::
  "remote \<Rightarrow> string \<Rightarrow> string \<Rightarrow> pyval list \<Rightarrow> (string \<times> pyval) list \<Rightarrow> state
     \<Rightarrow> (exc + pyval) \<times> state" where
  "enhanced_call_model rem model method args kwargs s =
     (case cfg_get s ''database'' of Inl e \<Rightarrow> (Inl e, s) | Inr db \<Rightarrow>
     (case cfg_get s ''api_key'' of Inl e \<Rightarrow> (Inl e, s) | Inr secret \<Rightarrow>
     (case rpc rem (exec_request s db secret model method args kwargs) s of
        (Inl e, s1) \<Rightarrow> (Inl e, s1)
      | (Inr result, s1) \<Rightarrow> (Inr result, s1))))"

section \<open>OdooWebRTCTester: authenticate and call_model\<close>

text \<open>
  \<^verbatim>\<open>OdooWebRTCTester.authenticate\<close> has two \<^verbatim>\<open>try\<close> blocks, one after the other.
  The first sends the password. The flag returned by a block says whether the block
  left the method with \<^verbatim>\<open>return True\<close>.
\<close>

definition password_attempt :: "remote \<Rightarrow> state \<Rightarrow> bool \<times> state" where
  "password_attempt rem s =
     (case cfg_get s ''database'' of Inl e \<Rightarrow> (False, s) | Inr db \<Rightarrow>
     (case cfg_get s ''username'' of Inl e \<Rightarrow> (False, s) | Inr user \<Rightarrow>
     (case cfg_get s ''password'' of Inl e \<Rightarrow> (False, s) | Inr secret \<Rightarrow>
     (case rpc rem (auth_request s db user secret) s of
        (Inl e, s1) \<Rightarrow> (False, s1)
      | (Inr v, s1) \<Rightarrow>
          (let s2 = s1\<lparr>uid := v\<rparr>
           in if truthy (uid s2) then (True, s2) else (False, s2))))))"

text \<open>
  The second block sends the API key and, when the answer is truthy, stores the API
  key under \<^verbatim>\<open>'password'\<close> in the configuration.
\<close>

definition api_key_attempt :: "remote \<Rightarrow> state \<Rightarrow> bool \<times> state" where
  "api_key_attempt rem s =
     (case cfg_get s ''database'' of Inl e \<Rightarrow> (False, s) | Inr db \<Rightarrow>
     (case cfg_get s ''username'' of Inl e \<Rightarrow> (False, s) | Inr user \<Rightarrow>
     (case cfg_get s ''api_key'' of Inl e \<Rightarrow> (False, s) | Inr secret \<Rightarrow>
     (case rpc rem (auth_request s db user secret) s of
        (Inl e, s1) \<Rightarrow> (False, s1)
      | (Inr v, s1) \<Rightarrow>
          (let s2 = s1\<lparr>uid := v\<rparr>
           in if truthy (uid s2)
              then (case cfg_get s2 ''api_key'' of
                      Inl e \<Rightarrow> (False, s2)
                    | Inr k \<Rightarrow> (True, s2\<lparr>config := (config s2)(''password'' \<mapsto> k)\<rparr>))
              else (False, s2))))))"

definition tester_authenticate :: "remote \<Rightarrow> state \<Rightarrow> (exc + bool) \<times> state" where
  "tester_authenticate rem s =
     (case password_attempt rem s of
        (True, s1) \<Rightarrow> (Inr True, s1)
      | (False, s1) \<Rightarrow>
          (case api_key_attempt rem s1 of
             (True, s2) \<Rightarrow> (Inr True, s2)
           | (False, s2) \<Rightarrow> (Inr False, s2)))"

text \<open>
  \<^verbatim>\<open>OdooWebRTCTester.call_model\<close>: the secret is \<^verbatim>\<open>config['password']\<close>; the handler
  raises the caught exception again.
\<close>

definition tester_call_model ::
  "remote \<Rightarrow> string \<Rightarrow> string \<Rightarrow> pyval list \<Rightarrow> (string \<times> pyval) list \<Rightarrow> state
     \<Rightarrow> (exc + pyval) \<times> state" where
  "tester_call_model rem model method args kwargs s =
     (case cfg_get s ''database'' of Inl e \<Rightarrow> (Inl e, s) | Inr db \<Rightarrow>
     (case cfg_get s ''password'' of Inl e \<Rightarrow> (Inl e, s) | Inr secret \<Rightarrow>
     (case rpc rem (exec_request s db secret model method args kwargs) s of
        (Inl e, s1) \<Rightarrow> (Inl e, s1)
      | (Inr result, s1) \<Rightarrow> (Inr result, s1))))"

section \<open>OdooCallInitiator: the operations built on call_model\<close>

text \<open>The two requests of \<^verbatim>\<open>ensure_channel_member\<close>, as the source writes them.\<close>

definition member_domain :: "pyval \<Rightarrow> pyval \<Rightarrow> pyval" where
  "member_domain channel_id partner_id =
     PList [PList [PStr ''channel_id'', PStr ''='', channel_id],
            PList [PStr ''partner_id'', PStr ''='', partner_id]]"

definition member_values :: "pyval \<Rightarrow> pyval \<Rightarrow> pyval" where
  "member_values channel_id partner_id =
     PDict [(''channel_id'', channel_id), (''partner_id'', partner_id)]"

text \<open>
  \<^verbatim>\<open>ensure_channel_member\<close>: the whole body is one \<^verbatim>\<open>try\<close> whose handler returns None.
\<close>

definition ensure_channel_member :: "remote \<Rightarrow> pyval \<Rightarrow> pyval \<Rightarrow> state \<Rightarrow> (exc + pyval) \<times> state" where
  "ensure_channel_member rem channel_id partner_id s =
     (case call_model rem ''discuss.channel.member'' ''search_read''
             [member_domain channel_id partner_id] [(''fields'', PList [PStr ''id''])] s of
        (Inl e, s1) \<Rightarrow> (Inr PNone, s1)
      | (Inr members, s1) \<Rightarrow>
          (if truthy members
           then (case getitem0 members of
                   Inl e \<Rightarrow> (Inr PNone, s1)
                 | Inr first_member \<Rightarrow>
                     (case getkey first_member ''id'' of
                        Inl e \<Rightarrow> (Inr PNone, s1)
                      | Inr member_id \<Rightarrow> (Inr member_id, s1)))
           else (case call_model rem ''discuss.channel.member'' ''create''
                        [member_values channel_id partner_id] [] s1 of
                   (Inl e, s2) \<Rightarrow> (Inr PNone, s2)
                 | (Inr member_id, s2) \<Rightarrow> (Inr member_id, s2))))"

text \<open>
  \<^verbatim>\<open>cleanup_existing_sessions\<close> (clean-and-call-105.py). The message printed after
  the search evaluates \<^verbatim>\<open>len(existing_sessions)\<close>, which raises on a truthy answer
  that has no length.
\<close>

definition search_domain :: "pyval \<Rightarrow> pyval" where
  "search_domain channel_id =
     (if truthy channel_id then PList [PList [PStr ''channel_id'', PStr ''='', channel_id]]
      else PList [])"

definition cleanup_existing_sessions :: "remote \<Rightarrow> pyval \<Rightarrow> state \<Rightarrow> (exc + bool) \<times> state" where
  "cleanup_existing_sessions rem channel_id s =
     (case call_model rem ''discuss.channel.rtc.session'' ''search''
             [search_domain channel_id] [] s of
        (Inl e, s1) \<Rightarrow> (Inr True, s1)
      | (Inr existing_sessions, s1) \<Rightarrow>
          (if truthy existing_sessions
           then (case py_len existing_sessions of
                   Inl e \<Rightarrow> (Inr True, s1)
                 | Inr n \<Rightarrow>
                     (case call_model rem ''discuss.channel.rtc.session'' ''unlink''
                             [existing_sessions] [] s1 of
                        (Inl e, s2) \<Rightarrow> (Inr True, s2)
                      | (Inr r, s2) \<Rightarrow> (Inr True, s2)))
           else (Inr True, s1)))"

text \<open>
  \<^verbatim>\<open>send_call_notification\<close> (call-channel-105-fixed.py): one read of the user, then
  up to three nested attempts under three method names. \<open>fmt\<close> stands for Python's
  string formatting of the channel id inside the f-string.
\<close>

definition caller_name_of :: "pyval \<Rightarrow> exc + pyval" where
  "caller_name_of user_data =
     (if truthy user_data
      then (case getitem0 user_data of Inl e \<Rightarrow> Inl e | Inr u \<Rightarrow> getkey u ''name'')
      else Inr (PStr ''CLI Caller''))"

definition notification_data :: "pyval \<Rightarrow> pyval \<Rightarrow> pyval \<Rightarrow> string \<Rightarrow> pyval \<Rightarrow> pyval" where
  "notification_data channel_id session_id partner_id call_type caller_name =
     PDict [(''id'', session_id), (''channel_id'', channel_id), (''partner_id'', partner_id),
            (''is_camera_on'', PBool (call_type = ''video'')), (''is_muted'', PBool False),
            (''is_screen_sharing_on'', PBool False), (''caller_name'', caller_name),
            (''action'', PStr ''join''), (''call_type'', PStr call_type)]"

definition send_call_notification ::
  "remote \<Rightarrow> (pyval \<Rightarrow> string) \<Rightarrow> pyval \<Rightarrow> pyval \<Rightarrow> pyval \<Rightarrow> string \<Rightarrow> state
     \<Rightarrow> (exc + bool) \<times> state" where
  "send_call_notification rem fmt channel_id session_id partner_id call_type s =
     (case call_model rem ''res.users'' ''read'' [uid s]
             [(''fields'', PList [PStr ''name'', PStr ''email''])] s of
        (Inl e, s1) \<Rightarrow> (Inr False, s1)
      | (Inr user_data, s1) \<Rightarrow>
     (case caller_name_of user_data of
        Inl e \<Rightarrow> (Inr False, s1)
      | Inr caller_name \<Rightarrow>
     (let data = notification_data channel_id session_id partner_id call_type caller_name;
          notifications =
            PList [PList [PStr (''discuss.channel_'' @ fmt channel_id),
                          PDict [(''type'', PStr ''discuss.channel.rtc.session/insert''),
                                 (''payload'', data)]]]
      in
     (case call_model rem ''bus.bus'' ''_sendmany'' [notifications] [] s1 of
        (Inr r, s2) \<Rightarrow> (Inr True, s2)
      | (Inl e1, s2) \<Rightarrow>
     (case call_model rem ''bus.bus'' ''sendmany'' [notifications] [] s2 of
        (Inr r, s3) \<Rightarrow> (Inr True, s3)
      | (Inl e2, s3) \<Rightarrow>
     (case call_model rem ''bus.bus'' ''create''
             [PDict [(''channel'', PStr (''discuss.channel_'' @ fmt channel_id)),
                     (''message'', data)]] [] s3 of
        (Inr r, s4) \<Rightarrow> (Inr True, s4)
      | (Inl e3, s4) \<Rightarrow> (Inr False, s4)))))))"

section \<open>OdooWebRTCTester: the channel-methods probe\<close>

definition methods_to_test :: "string list" where
  "methods_to_test =
     [''rtc_join_call'', ''rtc_leave_call'', ''mobile_start_webrtc_call'',
      ''mobile_answer_webrtc_call'']"

text \<open>
  The body of the inner \<^verbatim>\<open>try\<close>: \<^verbatim>\<open>channel['id']\<close> is evaluated, then the method is
  invoked on the channel.
\<close>

definition probe_attempt :: "remote \<Rightarrow> pyval \<Rightarrow> string \<Rightarrow> state \<Rightarrow> (exc + pyval) \<times> state" where
  "probe_attempt rem channel method s =
     (case getkey channel ''id'' of
        Inl e \<Rightarrow> (Inl e, s)
      | Inr channel_id \<Rightarrow> tester_call_model rem ''discuss.channel'' method [channel_id] [] s)"

text \<open>
  The value stored in \<^verbatim>\<open>method_results[method]\<close>: True after a return, and in the
  handler False exactly when \<^verbatim>\<open>'does not exist' in str(e)\<close>.
\<close>

definition probe_method :: "remote \<Rightarrow> pyval \<Rightarrow> string \<Rightarrow> state \<Rightarrow> bool \<times> state" where
  "probe_method rem channel method s =
     (case probe_attempt rem channel method s of
        (Inr r, s1) \<Rightarrow> (True, s1)
      | (Inl e, s1) \<Rightarrow>
          (if contains ''does not exist'' (str_exc e) then (False, s1) else (True, s1)))"

text \<open>\<^verbatim>\<open>d[k] = v\<close> on a dictionary kept in insertion order.\<close>

fun dict_set :: "string \<Rightarrow> 'v \<Rightarrow> (string \<times> 'v) list \<Rightarrow> (string \<times> 'v) list" where
  "dict_set k v [] = [(k, v)]"
| "dict_set k v ((k', v') # kvs) =
     (if k = k' then (k, v) # kvs else (k', v') # dict_set k v kvs)"

text \<open>\<^verbatim>\<open>any(...)\<close> on booleans.\<close>

fun any_true :: "bool list \<Rightarrow> bool" where
  "any_true [] = False"
| "any_true (b # bs) = (if b then True else any_true bs)"

text \<open>The \<^verbatim>\<open>for\<close> loop over the method names, filling \<^verbatim>\<open>method_results\<close>.\<close>

fun probe_all ::
  "remote \<Rightarrow> pyval \<Rightarrow> string list \<Rightarrow> (string \<times> bool) list \<Rightarrow> state
     \<Rightarrow> (string \<times> bool) list \<times> state" where
  "probe_all rem channel [] method_results s = (method_results, s)"
| "probe_all rem channel (method # methods) method_results s =
     (case probe_method rem channel method s of
        (flag, s1) \<Rightarrow> probe_all rem channel methods (dict_set method flag method_results) s1)"

text \<open>
  The part of \<^verbatim>\<open>test_channel_methods\<close> before the loop: the search for a test
  channel, the emptiness test, \<^verbatim>\<open>channels[0]\<close>, and the two fields the printed line
  reads. \<open>Inr (Some channel)\<close> enters the loop, \<open>Inr None\<close> is the
  \<^verbatim>\<open>return False\<close> after "No channels found", \<open>Inl e\<close> goes to the outer handler.
\<close>

definition find_test_channel :: "remote \<Rightarrow> state \<Rightarrow> (exc + pyval option) \<times> state" where
  "find_test_channel rem s =
     (case tester_call_model rem ''discuss.channel'' ''search_read'' [PList []]
             [(''fields'', PList [PStr ''id'', PStr ''name'', PStr ''channel_type'']),
              (''limit'', PInt 1)] s of
        (Inl e, s1) \<Rightarrow> (Inl e, s1)
      | (Inr channels, s1) \<Rightarrow>
          (if \<not> truthy channels then (Inr None, s1)
           else (case getitem0 channels of
                   Inl e \<Rightarrow> (Inl e, s1)
                 | Inr channel \<Rightarrow>
                     (case getkey channel ''name'' of
                        Inl e \<Rightarrow> (Inl e, s1)
                      | Inr name \<Rightarrow>
                          (case getkey channel ''id'' of
                             Inl e \<Rightarrow> (Inl e, s1)
                           | Inr channel_id \<Rightarrow> (Inr (Some channel), s1))))))"

definition test_channel_methods :: "remote \<Rightarrow> state \<Rightarrow> (exc + bool) \<times> state" where
  "test_channel_methods rem s =
     (case find_test_channel rem s of
        (Inl e, s1) \<Rightarrow> (Inr False, s1)
      | (Inr None, s1) \<Rightarrow> (Inr False, s1)
      | (Inr (Some channel), s1) \<Rightarrow>
          (case probe_all rem channel methods_to_test [] s1 of
             (method_results, s2) \<Rightarrow> (Inr (any_true (map snd method_results)), s2)))"

section \<open>Answers of the authentication endpoint\<close>


section \<open>Frame of an operation\<close>

text \<open>
  A request carries handle \<open>h\<close> when it has the seven parameters of \<^verbatim>\<open>execute_kw\<close>
  and the second is \<open>h\<close>.
\<close>

definition carries_handle :: "pyval \<Rightarrow> request \<Rightarrow> bool" where
  "carries_handle h q = (length (params q) = 7 \<and> params q ! 1 = h)"

text \<open>
  \<open>frame s s'\<close>: from \<open>s\<close> to \<open>s'\<close> no field of the client changed, the earlier
  calls are still the earlier calls, and every call added carries the handle of \<open>s\<close>.
\<close>

definition frame :: "state \<Rightarrow> state \<Rightarrow> bool" where
  "frame s s' =
     (client_fields s' = client_fields s \<and>
      take (length (sent s)) (sent s') = sent s \<and>
      list_all (carries_handle (uid s)) (drop (length (sent s)) (sent s')))"

section \<open>Concrete clients and endpoints\<close>

definition example_config :: "string \<rightharpoonup> pyval" where
  "example_config =
     map_of [(''database'', PStr ''db1''), (''username'', PStr ''mark''),
             (''api_key'', PStr ''key1''), (''password'', PStr ''pw1'')]"

definition fresh_client :: state where
  "fresh_client = init example_config ''https://host:443''"

text \<open>A client whose stored handle is 7.\<close>

definition authenticated_client :: state where
  "authenticated_client = fresh_client\<lparr>uid := PInt 7\<rparr>"

text \<open>
  An endpoint that rejects every credential by answering False, as the server does,
  and answers every \<^verbatim>\<open>execute_kw\<close> with the parameters it received.
\<close>

definition rejecting_echo :: remote where
  "rejecting_echo history q =
     (if rpc_method q = ''authenticate'' then Inr (PBool False) else Inr (PList (params q)))"

text \<open>An endpoint that raises the same fault on every call.\<close>

definition faulting :: remote where
  "faulting history q = Inl (PyExc ''Fault'' ''<Fault 2: Access Denied>'')"

text \<open>
  An endpoint that rejects the first credential it is sent and accepts the next with
  handle 7.
\<close>

definition second_try_accepts :: remote where
  "second_try_accepts history q = (if history = [] then Inr (PBool False) else Inr (PInt 7))"

text \<open>An endpoint that accepts every credential, with a new handle for each call.\<close>

definition counting_accepts :: remote where
  "counting_accepts history q = Inr (PInt (7 + int (length history)))"

text \<open>
  A server with one membership record, id 42, for every search, and id 43 for a
  creation; and a server with no membership record.
\<close>

definition member_exists :: remote where
  "member_exists history q =
     (if params q ! 4 = PStr ''search_read''
      then Inr (PList [PDict [(''id'', PInt 42)]]) else Inr (PInt 43))"

definition member_absent :: remote where
  "member_absent history q =
     (if params q ! 4 = PStr ''search_read'' then Inr (PList []) else Inr (PInt 43))"

text \<open>
  A server with one channel on which \<^verbatim>\<open>rtc_join_call\<close> fails for a reason of its own
  and the other probed methods are unknown.
\<close>

definition one_method_known :: remote where
  "one_method_known history q =
     (if params q ! 4 = PStr ''search_read''
      then Inr (PList [PDict [(''id'', PInt 105), (''name'', PStr ''general'')]])
      else if params q ! 4 = PStr ''rtc_join_call''
      then Inl (PyExc ''Fault'' ''<Fault 1: missing argument>'')
      else Inl (PyExc ''Fault'' ''<Fault 1: The method does not exist on the model>''))"

text \<open>The same server when none of the probed methods is known.\<close>

definition no_method_known :: remote where
  "no_method_known history q =
     (if params q ! 4 = PStr ''search_read''
      then Inr (PList [PDict [(''id'', PInt 105), (''name'', PStr ''general'')]])
      else Inl (PyExc ''Fault'' ''<Fault 1: The method does not exist on the model>''))"

section \<open>Failed authentication\<close>




section \<open>Calls before authentication\<close>




section \<open>The request of call_model and its answer\<close>

text \<open>
  Claim C3. On an authenticated client (the stored handle is truthy) whose
  configuration has the database name and the API key, \<open>call_model\<close> makes one
  \<^verbatim>\<open>execute_kw\<close> call on the object endpoint whose parameters are, in this order, the
  database name, the stored handle, the API key, the model name, the method name, the
  positional arguments and the named arguments, and nothing else; its outcome is the
  endpoint's answer to that call, unchanged. The variant of EnhancedOdooCallInitiator
  does the same.
\<close>

theorem call_model_payload:
  assumes authenticated: "truthy (uid s)"
    and db: "config s ''database'' = Some db"
    and secret: "config s ''api_key'' = Some secret"
  shows "sent (snd (call_model rem model method args kwargs s)) =
           sent s @ [\<lparr>endpoint = url s @ ''/xmlrpc/2/object'', rpc_method = ''execute_kw'',
                      params = [db, uid s, secret, PStr model, PStr method,
                                PList args, PDict kwargs]\<rparr>] \<and>
         fst (call_model rem model method args kwargs s) =
           rem (sent s) \<lparr>endpoint = url s @ ''/xmlrpc/2/object'', rpc_method = ''execute_kw'',
                         params = [db, uid s, secret, PStr model, PStr method,
                                   PList args, PDict kwargs]\<rparr> \<and>
         enhanced_call_model rem model method args kwargs s =
           call_model rem model method args kwargs s"
  using assms
  by (auto simp: call_model_def enhanced_call_model_def cfg_get_def rpc_def exec_request_def
        split: sum.splits)

theorem call_model_payload_witness:
  "truthy (uid authenticated_client) \<and>
   fst (call_model rejecting_echo ''modelX'' ''methodY'' [PInt 1, PInt 2] [(''k'', PStr ''v'')]
          authenticated_client) =
     Inr (PList [PStr ''db1'', PInt 7, PStr ''key1'', PStr ''modelX'', PStr ''methodY'',
                 PList [PInt 1, PInt 2], PDict [(''k'', PStr ''v'')]]) \<and>
   sent (snd (call_model rejecting_echo ''modelX'' ''methodY'' [PInt 1, PInt 2]
                [(''k'', PStr ''v'')] authenticated_client)) =
     [\<lparr>endpoint = ''https://host:443/xmlrpc/2/object'', rpc_method = ''execute_kw'',
       params = [PStr ''db1'', PInt 7, PStr ''key1'', PStr ''modelX'', PStr ''methodY'',
                 PList [PInt 1, PInt 2], PDict [(''k'', PStr ''v'')]]\<rparr>]"
proof -
  have a: "truthy (uid authenticated_client)"
    by (simp add: authenticated_client_def)
  have c: "config authenticated_client ''database'' = Some (PStr ''db1'')"
    "config authenticated_client ''api_key'' = Some (PStr ''key1'')"
    by (simp_all add: authenticated_client_def fresh_client_def init_def example_config_def)
  have f: "sent authenticated_client = []" "url authenticated_client = ''https://host:443''"
    "uid authenticated_client = PInt 7"
    by (simp_all add: authenticated_client_def fresh_client_def init_def)
  show ?thesis
    using a call_model_payload [of authenticated_client _ _ rejecting_echo "''modelX''"
        "''methodY''" "[PInt 1, PInt 2]" "[(''k'', PStr ''v'')]", OF a c]
    by (simp add: f rejecting_echo_def)
qed

section \<open>Faults of the invocation endpoint\<close>



section \<open>What an operation may change\<close>

lemma frame_refl: "frame s s"
  by (simp add: frame_def)

lemma frame_trans: "frame s s1 \<Longrightarrow> frame s1 s2 \<Longrightarrow> frame s s2"
proof -
  assume a: "frame s s1" and b: "frame s1 s2"
  from a have u: "uid s1 = uid s" by (simp add: frame_def client_fields_def)
  from a obtain qs where qs: "sent s1 = sent s @ qs" "list_all (carries_handle (uid s)) qs"
    by (metis frame_def append_take_drop_id)
  from b u obtain rs where rs: "sent s2 = sent s1 @ rs" "list_all (carries_handle (uid s)) rs"
    by (metis frame_def append_take_drop_id)
  from a b have "client_fields s2 = client_fields s" by (simp add: frame_def)
  with qs rs show ?thesis by (simp add: frame_def)
qed

lemma frame_call_model: "frame s (snd (call_model rem model method args kwargs s))"
  by (simp add: frame_def call_model_def cfg_get_def rpc_def exec_request_def client_fields_def
        carries_handle_def split: option.splits)

lemma frame_enhanced_call_model: "frame s (snd (enhanced_call_model rem model method args kwargs s))"
  by (simp add: frame_def enhanced_call_model_def cfg_get_def rpc_def exec_request_def
        client_fields_def carries_handle_def split: option.splits sum.splits)

lemma frame_tester_call_model: "frame s (snd (tester_call_model rem model method args kwargs s))"
  by (simp add: frame_def tester_call_model_def cfg_get_def rpc_def exec_request_def
        client_fields_def carries_handle_def split: option.splits sum.splits)

lemma frame_step:
  "call_model rem model method args kwargs s = (r, s1) \<Longrightarrow> frame s s1"
  using frame_call_model [of s rem model "method" "args" kwargs] by simp

lemma frame_ensure_channel_member:
  "frame s (snd (ensure_channel_member rem channel_id partner_id s))"
  unfolding ensure_channel_member_def
  by (auto split: prod.splits sum.splits dest!: frame_step intro: frame_trans)

lemma frame_cleanup_existing_sessions:
  "frame s (snd (cleanup_existing_sessions rem channel_id s))"
  unfolding cleanup_existing_sessions_def
  by (auto split: prod.splits sum.splits dest!: frame_step intro: frame_trans)

lemma frame_send_call_notification:
  "frame s (snd (send_call_notification rem fmt channel_id session_id partner_id call_type s))"
  unfolding send_call_notification_def Let_def
  by (auto split: prod.splits sum.splits dest!: frame_step intro: frame_trans)

lemma frame_tester_step:
  "tester_call_model rem model method args kwargs s = (r, s1) \<Longrightarrow> frame s s1"
  using frame_tester_call_model [of s rem model "method" "args" kwargs] by simp

lemma frame_probe_method: "frame s (snd (probe_method rem channel method s))"
  unfolding probe_method_def probe_attempt_def
  by (auto split: prod.splits sum.splits simp: frame_refl dest!: frame_tester_step)

lemma frame_probe_all: "frame s (snd (probe_all rem channel methods method_results s))"
proof (induction methods arbitrary: method_results s)
  case Nil
  show ?case by (simp add: frame_refl)
next
  case (Cons m ms)
  obtain flag s1 where p: "probe_method rem channel m s = (flag, s1)"
    by (cases "probe_method rem channel m s")
  then have "frame s s1" using frame_probe_method [of s rem channel m] by simp
  moreover have "frame s1 (snd (probe_all rem channel ms (dict_set m flag method_results) s1))"
    by (rule Cons.IH)
  ultimately show ?case using p by (auto intro: frame_trans)
qed

lemma frame_find_test_channel: "frame s (snd (find_test_channel rem s))"
  unfolding find_test_channel_def
  by (auto split: prod.splits sum.splits dest!: frame_tester_step)

lemma frame_test_channel_methods: "frame s (snd (test_channel_methods rem s))"
proof -
  obtain r s1 where f: "find_test_channel rem s = (r, s1)"
    by (cases "find_test_channel rem s")
  then have 1: "frame s s1" using frame_find_test_channel [of s rem] by simp
  show ?thesis
  proof (cases r)
    case (Inl e)
    with f 1 show ?thesis by (simp add: test_channel_methods_def)
  next
    case (Inr oc)
    show ?thesis
    proof (cases oc)
      case None
      with f 1 Inr show ?thesis by (simp add: test_channel_methods_def)
    next
      case (Some channel)
      have "frame s1 (snd (probe_all rem channel methods_to_test [] s1))"
        by (rule frame_probe_all)
      with 1 have "frame s (snd (probe_all rem channel methods_to_test [] s1))"
        by (rule frame_trans)
      with f Inr Some show ?thesis
        by (auto simp: test_channel_methods_def split: prod.splits)
    qed
  qed
qed

text \<open>
  Claim C5, as the code has it. \<open>call_model\<close> in its three variants and the operations
  built on it (\<open>ensure_channel_member\<close>, \<open>cleanup_existing_sessions\<close>,
  \<open>send_call_notification\<close>, \<open>test_channel_methods\<close>) write no field of the client,
  and every call they add carries the handle stored when the operation began.
  \<open>authenticate\<close> returns a boolean; when it returns True the stored handle is truthy
  and is the value the endpoint answered to the one call made. It never writes the
  configuration or the address; the variant of OdooWebRTCTester never writes the
  address.
\<close>

theorem client_fields_written_by_authenticate_only:
  "frame s (snd (call_model rem model method args kwargs s)) \<and>
   frame s (snd (enhanced_call_model rem model method args kwargs s)) \<and>
   frame s (snd (tester_call_model rem model method args kwargs s)) \<and>
   frame s (snd (ensure_channel_member rem channel_id partner_id s)) \<and>
   frame s (snd (cleanup_existing_sessions rem channel_id s)) \<and>
   frame s (snd (send_call_notification rem fmt channel_id session_id partner_id call_type s)) \<and>
   frame s (snd (test_channel_methods rem s)) \<and>
   (fst (authenticate rem s) = Inr True \<longrightarrow>
      truthy (uid (snd (authenticate rem s))) \<and>
      (\<exists>q. sent (snd (authenticate rem s)) = sent s @ [q] \<and>
           rem (sent s) q = Inr (uid (snd (authenticate rem s))))) \<and>
   config (snd (authenticate rem s)) = config s \<and>
   url (snd (authenticate rem s)) = url s \<and>
   (fst (tester_authenticate rem s) = Inr True \<longrightarrow>
      truthy (uid (snd (tester_authenticate rem s)))) \<and>
   url (snd (tester_authenticate rem s)) = url s"
proof -
  have a: "fst (authenticate rem s) = Inr True \<longrightarrow>
      truthy (uid (snd (authenticate rem s))) \<and>
      (\<exists>q. sent (snd (authenticate rem s)) = sent s @ [q] \<and>
           rem (sent s) q = Inr (uid (snd (authenticate rem s))))"
    by (auto simp: authenticate_def cfg_get_def rpc_def Let_def
          split: option.splits sum.splits if_splits)
  have b: "config (snd (authenticate rem s)) = config s \<and> url (snd (authenticate rem s)) = url s"
    by (auto simp: authenticate_def cfg_get_def rpc_def Let_def
          split: option.splits sum.splits if_splits)
  have c: "(fst (tester_authenticate rem s) = Inr True \<longrightarrow>
      truthy (uid (snd (tester_authenticate rem s)))) \<and>
      url (snd (tester_authenticate rem s)) = url s"
    by (auto simp: tester_authenticate_def password_attempt_def api_key_attempt_def cfg_get_def
          rpc_def Let_def split: sum.splits option.splits prod.splits bool.splits if_splits)
  show ?thesis
    using a b c
    by (simp add: frame_call_model frame_enhanced_call_model frame_tester_call_model
          frame_ensure_channel_member frame_cleanup_existing_sessions
          frame_send_call_notification frame_test_channel_methods)
qed

theorem client_fields_written_by_authenticate_only_witness:
  "fst (authenticate counting_accepts fresh_client) = Inr True \<and>
   uid (snd (authenticate counting_accepts fresh_client)) = PInt 7 \<and>
   frame (snd (authenticate counting_accepts fresh_client))
     (snd (ensure_channel_member member_absent (PInt 105) (PInt 3)
        (snd (authenticate counting_accepts fresh_client)))) \<and>
   list_all (carries_handle (PInt 7))
     (drop 1 (sent (snd (ensure_channel_member member_absent (PInt 105) (PInt 3)
        (snd (authenticate counting_accepts fresh_client))))))"
proof -
  have t: "fst (authenticate counting_accepts fresh_client) = Inr True"
    by (simp add: authenticate_def cfg_get_def rpc_def fresh_client_def init_def
          example_config_def counting_accepts_def)
  have s: "sent (snd (authenticate counting_accepts fresh_client)) =
             [auth_request fresh_client (PStr ''db1'') (PStr ''mark'') (PStr ''key1'')]"
    by (simp add: authenticate_def cfg_get_def rpc_def fresh_client_def init_def
          example_config_def counting_accepts_def)
  have u: "uid (snd (authenticate counting_accepts fresh_client)) = PInt 7"
    by (simp add: authenticate_def cfg_get_def rpc_def fresh_client_def init_def
          example_config_def counting_accepts_def)
  show ?thesis
    using t u s
      client_fields_written_by_authenticate_only [where rem = member_absent
        and s = "snd (authenticate counting_accepts fresh_client)"
        and channel_id = "PInt 105" and partner_id = "PInt 3"]
      client_fields_written_by_authenticate_only [where rem = counting_accepts
        and s = fresh_client]
    by (simp add: frame_def)
qed

text \<open>
  Against C5 as the specification words it. In one successful call of the
  OdooWebRTCTester variant the handle field is written twice (False after the
  password, then 7) and \<^verbatim>\<open>config['password']\<close> is overwritten. A rejected
  \<open>authenticate\<close> writes the handle field although it did not succeed. Nothing stops a
  second \<open>authenticate\<close>, which returns True again and replaces the handle.
\<close>

theorem handle_written_once_counterexample:
  "uid fresh_client = PNone \<and>
   uid (snd (password_attempt second_try_accepts fresh_client)) = PBool False \<and>
   fst (tester_authenticate second_try_accepts fresh_client) = Inr True \<and>
   uid (snd (tester_authenticate second_try_accepts fresh_client)) = PInt 7 \<and>
   config fresh_client ''password'' = Some (PStr ''pw1'') \<and>
   config (snd (tester_authenticate second_try_accepts fresh_client)) ''password'' =
     Some (PStr ''key1'') \<and>
   fst (authenticate rejecting_echo fresh_client) = Inr False \<and>
   uid (snd (authenticate rejecting_echo fresh_client)) = PBool False \<and>
   fst (authenticate counting_accepts fresh_client) = Inr True \<and>
   uid (snd (authenticate counting_accepts fresh_client)) = PInt 7 \<and>
   fst (authenticate counting_accepts (snd (authenticate counting_accepts fresh_client))) = Inr True \<and>
   uid (snd (authenticate counting_accepts (snd (authenticate counting_accepts fresh_client)))) = PInt 8"
  by (simp add: tester_authenticate_def password_attempt_def api_key_attempt_def authenticate_def
        cfg_get_def rpc_def fresh_client_def init_def example_config_def second_try_accepts_def
        rejecting_echo_def counting_accepts_def auth_request_def)

section \<open>Attempts per call\<close>




section \<open>Membership: search, then create when absent\<close>

text \<open>
  Claim C7. With the configuration entries present, \<open>ensure_channel_member\<close> first
  searches the membership model with the domain made of exactly the channel id and the
  partner id. It then issues the create call if and only if the search returned an
  empty (falsy) result. When the search returns a non-empty list whose first record
  has an id, that id is returned and no create is made; when the search returns an
  empty result and the create call returns an id, that id is returned.
\<close>

theorem ensure_channel_member_search_then_create:
  assumes db: "config s ''database'' = Some db"
    and secret: "config s ''api_key'' = Some secret"
  shows
    "let search = \<lparr>endpoint = url s @ ''/xmlrpc/2/object'', rpc_method = ''execute_kw'',
            params = [db, uid s, secret, PStr ''discuss.channel.member'', PStr ''search_read'',
                      PList [PList [PList [PStr ''channel_id'', PStr ''='', channel_id],
                                    PList [PStr ''partner_id'', PStr ''='', partner_id]]],
                      PDict [(''fields'', PList [PStr ''id''])]]\<rparr>;
         create = \<lparr>endpoint = url s @ ''/xmlrpc/2/object'', rpc_method = ''execute_kw'',
            params = [db, uid s, secret, PStr ''discuss.channel.member'', PStr ''create'',
                      PList [PDict [(''channel_id'', channel_id), (''partner_id'', partner_id)]],
                      PDict []]\<rparr>;
         found = rem (sent s) search;
         outcome = ensure_channel_member rem channel_id partner_id s
     in (sent (snd outcome) = sent s @ [search] \<or> sent (snd outcome) = sent s @ [search, create]) \<and>
        (sent (snd outcome) = sent s @ [search, create] \<longleftrightarrow>
           (\<exists>members. found = Inr members \<and> \<not> truthy members)) \<and>
        (\<forall>record others member_id.
           found = Inr (PList (PDict record # others)) \<and> map_of record ''id'' = Some member_id \<longrightarrow>
           outcome = (Inr member_id, s\<lparr>sent := sent s @ [search]\<rparr>)) \<and>
        (\<forall>members member_id.
           found = Inr members \<and> \<not> truthy members \<and>
           rem (sent s @ [search]) create = Inr member_id \<longrightarrow>
           outcome = (Inr member_id, s\<lparr>sent := sent s @ [search, create]\<rparr>))"
  using assms
  by (auto simp: Let_def ensure_channel_member_def call_model_def cfg_get_def rpc_def
        exec_request_def member_domain_def member_values_def
        split: sum.splits prod.splits)

theorem ensure_channel_member_search_then_create_witness:
  "fst (ensure_channel_member member_exists (PInt 105) (PInt 3) authenticated_client) = Inr (PInt 42) \<and>
   length (sent (snd (ensure_channel_member member_exists (PInt 105) (PInt 3) authenticated_client))) = 1 \<and>
   fst (ensure_channel_member member_absent (PInt 105) (PInt 3) authenticated_client) = Inr (PInt 43) \<and>
   length (sent (snd (ensure_channel_member member_absent (PInt 105) (PInt 3) authenticated_client))) = 2"
proof -
  have c: "config authenticated_client ''database'' = Some (PStr ''db1'')"
    "config authenticated_client ''api_key'' = Some (PStr ''key1'')"
    by (simp_all add: authenticated_client_def fresh_client_def init_def example_config_def)
  have f: "sent authenticated_client = []"
    by (simp add: authenticated_client_def fresh_client_def init_def)
  show ?thesis
    using ensure_channel_member_search_then_create [where rem = member_exists
        and channel_id = "PInt 105" and partner_id = "PInt 3", OF c]
      ensure_channel_member_search_then_create [where rem = member_absent
        and channel_id = "PInt 105" and partner_id = "PInt 3", OF c]
    by (simp add: Let_def f member_exists_def member_absent_def)
qed

section \<open>Two calls in sequence\<close>

text \<open>
  Claim C8. A \<open>call_model\<close> call leaves every field of the client as it was, so the
  call that follows it on the same client adds the very request it would add on the
  client as it was before the first call, whatever the endpoint answered to the
  first; and when the endpoint answers the second call alike in both settings, the
  second call's result is the same in both.
\<close>

theorem call_model_no_leakage:
  "let s1 = snd (call_model rem model1 method1 args1 kwargs1 s) in
         client_fields s1 = client_fields s \<and>
         client_fields (snd (call_model rem model2 method2 args2 kwargs2 s1)) = client_fields s \<and>
         take (length (sent s)) (sent s1) = sent s \<and>
         drop (length (sent s1)) (sent (snd (call_model rem model2 method2 args2 kwargs2 s1))) =
           drop (length (sent s)) (sent (snd (call_model rem' model2 method2 args2 kwargs2 s))) \<and>
         ((\<forall>q. rem' (sent s) q = rem (sent s1) q) \<longrightarrow>
            fst (call_model rem' model2 method2 args2 kwargs2 s) =
            fst (call_model rem model2 method2 args2 kwargs2 s1))"
  by (auto simp: Let_def call_model_def cfg_get_def rpc_def exec_request_def client_fields_def
        split: option.splits)

theorem call_model_no_leakage_witness:
  "(\<forall>q. rejecting_echo (sent authenticated_client) q =
         rejecting_echo
           (sent (snd (call_model rejecting_echo ''res.users'' ''read'' [PInt 7] [] authenticated_client)))
           q) \<and>
   fst (call_model rejecting_echo ''res.partner'' ''search'' [] []
          (snd (call_model rejecting_echo ''res.users'' ''read'' [PInt 7] [] authenticated_client))) =
   fst (call_model rejecting_echo ''res.partner'' ''search'' [] [] authenticated_client) \<and>
   fst (call_model rejecting_echo ''res.partner'' ''search'' [] [] authenticated_client) =
     Inr (PList [PStr ''db1'', PInt 7, PStr ''key1'', PStr ''res.partner'', PStr ''search'',
                 PList [], PDict []])"
proof -
  have same: "\<forall>q. rejecting_echo (sent authenticated_client) q =
         rejecting_echo
           (sent (snd (call_model rejecting_echo ''res.users'' ''read'' [PInt 7] [] authenticated_client)))
           q"
    by (simp add: rejecting_echo_def)
  have direct: "fst (call_model rejecting_echo ''res.partner'' ''search'' [] [] authenticated_client) =
     Inr (PList [PStr ''db1'', PInt 7, PStr ''key1'', PStr ''res.partner'', PStr ''search'',
                 PList [], PDict []])"
    by (simp add: call_model_def cfg_get_def rpc_def exec_request_def rejecting_echo_def
          authenticated_client_def fresh_client_def init_def example_config_def)
  show ?thesis
    using same direct
      call_model_no_leakage [where rem = rejecting_echo and rem' = rejecting_echo
        and s = authenticated_client and ?model1.0 = "''res.users''" and ?method1.0 = "''read''"
        and ?args1.0 = "[PInt 7]" and ?kwargs1.0 = "[]" and ?model2.0 = "''res.partner''"
        and ?method2.0 = "''search''" and ?args2.0 = "[]" and ?kwargs2.0 = "[]"]
    by (simp add: Let_def)
qed

section \<open>Cleanup never fails\<close>

text \<open>
  Claim C9. \<open>cleanup_existing_sessions\<close> returns True on every path: when the search
  finds nothing, when it finds sessions and deletes them, and when the search, the
  length of its answer, or the deletion raises; it raises nothing itself.
\<close>

theorem cleanup_existing_sessions_true:
  "fst (cleanup_existing_sessions rem channel_id s) = Inr True"
  by (simp add: cleanup_existing_sessions_def split: prod.splits sum.splits)

section \<open>The channel-methods probe\<close>

lemma starts_with_prefix: "starts_with needle hay \<longleftrightarrow> prefix needle hay"
  by (induction needle hay rule: starts_with.induct) auto

lemma contains_sublist: "contains needle hay \<longleftrightarrow> sublist needle hay"
  by (induction hay) (auto simp: starts_with_prefix sublist_Cons_right)

text \<open>
  Claim C10. A probed method is recorded as non-existent if and only if the attempt
  raised an exception whose message contains \<^verbatim>\<open>does not exist\<close>; an attempt that
  returns, or raises anything else, records it as existing. The probe always returns a
  boolean, and it returns True if and only if a test channel was found and at least
  one of the four method names, probed in their order, was recorded as existing.
\<close>

theorem test_channel_methods_classification:
  "(fst (probe_method rem channel method s) = False \<longleftrightarrow>
      (\<exists>e. fst (probe_attempt rem channel method s) = Inl e \<and>
           (\<exists>before after. str_exc e = before @ ''does not exist'' @ after))) \<and>
   (fst (test_channel_methods rem s) = Inr True \<or> fst (test_channel_methods rem s) = Inr False) \<and>
   (fst (test_channel_methods rem s) = Inr True \<longleftrightarrow>
      (\<exists>channel s1. find_test_channel rem s = (Inr (Some channel), s1) \<and>
         (let p1 = probe_method rem channel ''rtc_join_call'' s1;
              p2 = probe_method rem channel ''rtc_leave_call'' (snd p1);
              p3 = probe_method rem channel ''mobile_start_webrtc_call'' (snd p2);
              p4 = probe_method rem channel ''mobile_answer_webrtc_call'' (snd p3)
          in fst p1 \<or> fst p2 \<or> fst p3 \<or> fst p4)))"
proof -
  have cls: "fst (probe_method rem channel method s) = False \<longleftrightarrow>
      (\<exists>e. fst (probe_attempt rem channel method s) = Inl e \<and>
           (\<exists>before after. str_exc e = before @ ''does not exist'' @ after))"
    by (auto simp: probe_method_def contains_sublist sublist_def split: prod.splits sum.splits)
  have loop: "fst (probe_all rem channel methods_to_test [] s1) =
      (let p1 = probe_method rem channel ''rtc_join_call'' s1;
           p2 = probe_method rem channel ''rtc_leave_call'' (snd p1);
           p3 = probe_method rem channel ''mobile_start_webrtc_call'' (snd p2);
           p4 = probe_method rem channel ''mobile_answer_webrtc_call'' (snd p3)
       in [(''rtc_join_call'', fst p1), (''rtc_leave_call'', fst p2),
           (''mobile_start_webrtc_call'', fst p3), (''mobile_answer_webrtc_call'', fst p4)])"
    for channel s1
    by (simp add: methods_to_test_def Let_def split: prod.splits)
  have res: "fst (test_channel_methods rem s) = Inr True \<longleftrightarrow>
      (\<exists>channel s1. find_test_channel rem s = (Inr (Some channel), s1) \<and>
         any_true (map snd (fst (probe_all rem channel methods_to_test [] s1))))"
    by (auto simp: test_channel_methods_def split: prod.splits sum.splits option.splits)
  have tot: "fst (test_channel_methods rem s) = Inr True \<or> fst (test_channel_methods rem s) = Inr False"
    by (auto simp: test_channel_methods_def split: prod.splits sum.splits option.splits)
  have any: "any_true [a, b, c, d] \<longleftrightarrow> a \<or> b \<or> c \<or> d" for a b c d
    by simp
  have fin: "fst (test_channel_methods rem s) = Inr True \<longleftrightarrow>
      (\<exists>channel s1. find_test_channel rem s = (Inr (Some channel), s1) \<and>
         (let p1 = probe_method rem channel ''rtc_join_call'' s1;
              p2 = probe_method rem channel ''rtc_leave_call'' (snd p1);
              p3 = probe_method rem channel ''mobile_start_webrtc_call'' (snd p2);
              p4 = probe_method rem channel ''mobile_answer_webrtc_call'' (snd p3)
          in fst p1 \<or> fst p2 \<or> fst p3 \<or> fst p4))"
    unfolding res loop by (simp only: Let_def list.map snd_conv any)
  from cls tot fin show ?thesis by (intro conjI)
qed

theorem test_channel_methods_classification_witness:
  "fst (probe_method one_method_known (PDict [(''id'', PInt 105)]) ''rtc_join_call''
          authenticated_client) = True \<and>
   fst (probe_method one_method_known (PDict [(''id'', PInt 105)]) ''rtc_leave_call''
          authenticated_client) = False \<and>
   fst (test_channel_methods one_method_known authenticated_client) = Inr True \<and>
   fst (test_channel_methods no_method_known authenticated_client) = Inr False \<and>
   fst (test_channel_methods faulting authenticated_client) = Inr False"
proof -
  have c: "cfg_get (authenticated_client\<lparr>sent := qs\<rparr>) ''database'' = Inr (PStr ''db1'')"
    "cfg_get (authenticated_client\<lparr>sent := qs\<rparr>) ''password'' = Inr (PStr ''pw1'')"
    "cfg_get authenticated_client ''database'' = Inr (PStr ''db1'')"
    "cfg_get authenticated_client ''password'' = Inr (PStr ''pw1'')" for qs
    by (simp_all add: cfg_get_def authenticated_client_def fresh_client_def init_def
          example_config_def)
  have p:
    "fst (probe_method one_method_known (PDict [(''id'', PInt 105)]) ''rtc_join_call''
          authenticated_client) = True"
    "fst (probe_method one_method_known (PDict [(''id'', PInt 105)]) ''rtc_leave_call''
          authenticated_client) = False"
    by (simp_all add: probe_method_def probe_attempt_def tester_call_model_def c rpc_def
          exec_request_def one_method_known_def)
  have f: "fst (test_channel_methods faulting authenticated_client) = Inr False"
    by (simp add: test_channel_methods_def find_test_channel_def tester_call_model_def c
          rpc_def faulting_def)
  have k: "find_test_channel one_method_known authenticated_client =
             (Inr (Some (PDict [(''id'', PInt 105), (''name'', PStr ''general'')])),
              snd (find_test_channel one_method_known authenticated_client))"
    by (simp add: find_test_channel_def tester_call_model_def c rpc_def exec_request_def
          one_method_known_def)
  have j: "fst (probe_method one_method_known
                  (PDict [(''id'', PInt 105), (''name'', PStr ''general'')]) ''rtc_join_call''
                  (snd (find_test_channel one_method_known authenticated_client)))"
    by (simp add: probe_method_def probe_attempt_def tester_call_model_def cfg_get_def rpc_def
          exec_request_def one_method_known_def find_test_channel_def authenticated_client_def
          fresh_client_def init_def example_config_def)
  have n: "fst (test_channel_methods no_method_known authenticated_client) = Inr False"
    by (simp add: test_channel_methods_def find_test_channel_def tester_call_model_def
          cfg_get_def rpc_def exec_request_def no_method_known_def methods_to_test_def
          probe_method_def probe_attempt_def authenticated_client_def fresh_client_def init_def
          example_config_def)
  have t: "fst (test_channel_methods one_method_known authenticated_client) = Inr True"
    using test_channel_methods_classification [where rem = one_method_known
        and s = authenticated_client] k j
    by (auto simp: Let_def)
  from p f n t show ?thesis by simp
qed

end
